theory Spec2Isabelle
  imports Complex_Main
begin

section \<open>Python values shared by the three modules\<close>

text \<open>
  The exceptions the code raises or meets. Every constructor is an instance of Python's
  \<open>Exception\<close> class, the class the loader's handler names; the argument is the message
  (for \<open>KeyError\<close>, the missing key). Messages that print a run-time number are shortened.
\<close>

datatype pyexc =
    ValueError string
  | KeyError string
  | IndexError string
  | OverflowError string
  | AttributeError string
  | TypeError string
  | ProviderError string

text \<open>\<open>str(E)\<close>: the message; a \<open>KeyError\<close> prints the repr of its key.\<close>

fun str_exc :: "pyexc \<Rightarrow> string" where
  "str_exc (ValueError m) = m"
| "str_exc (KeyError k) = [CHR 0x27] @ k @ [CHR 0x27]"
| "str_exc (IndexError m) = m"
| "str_exc (OverflowError m) = m"
| "str_exc (AttributeError m) = m"
| "str_exc (TypeError m) = m"
| "str_exc (ProviderError m) = m"

text \<open>A call that raises returns \<open>Inl\<close>; the statement after it runs on \<open>Inr\<close> only.\<close>

definition bind_exc :: "pyexc + 'a \<Rightarrow> ('a \<Rightarrow> pyexc + 'b) \<Rightarrow> pyexc + 'b" where
  "bind_exc m f = (case m of Inl e \<Rightarrow> Inl e | Inr x \<Rightarrow> f x)"

text \<open>
  \<open>for x in xs: body\<close> over a state: the body runs on each element in turn and the first
  exception ends the loop.
\<close>

fun for_each :: "('x \<Rightarrow> 's \<Rightarrow> pyexc + 's) \<Rightarrow> 'x list \<Rightarrow> 's \<Rightarrow> pyexc + 's" where
  "for_each body [] s = Inr s"
| "for_each body (x # xs) s = bind_exc (body x s) (for_each body xs)"

text \<open>
  A float cell of a table: \<open>None\<close> is NaN (a missing value), \<open>Some x\<close> a finite number,
  taken as an exact real, so the rounding of float arithmetic is not part of the model.
  Comparisons with NaN are false, as in Python.
\<close>

type_synonym pyfloat = "real option"


fun flt :: "pyfloat \<Rightarrow> pyfloat \<Rightarrow> bool" where
  "flt (Some x) (Some y) = (x < y)"
| "flt _ _ = False"

type_synonym series = "pyfloat list"

text \<open>
  The Table: a date index and labelled columns, in column order, with the two
  name attributes the loader clears. A label names one column: \<open>data[t]\<close> reads the first
  column labelled \<open>t\<close>.
\<close>

record DataFrame =
  index_name :: "string option"
  columns_name :: "string option"
  row_index :: "int list"
  cols :: "(string \<times> series) list"

definition columns :: "DataFrame \<Rightarrow> string list" where
  "columns data = map fst (cols data)"

text \<open>\<open>data[t]\<close>: the column labelled \<open>t\<close>, or \<open>KeyError\<close>.\<close>

definition getitem :: "DataFrame \<Rightarrow> string \<Rightarrow> pyexc + series" where
  "getitem data t =
     (case map_of (cols data) t of None \<Rightarrow> Inl (KeyError t) | Some s \<Rightarrow> Inr s)"

text \<open>\<open>data[ts]\<close> with a list of labels: the sub-table of those columns, in the list's order.\<close>

fun getitems :: "DataFrame \<Rightarrow> string list \<Rightarrow> pyexc + (string \<times> series) list" where
  "getitems data [] = Inr []"
| "getitems data (t # ts) =
     bind_exc (getitem data t) (\<lambda>s.
     bind_exc (getitems data ts) (\<lambda>rest. Inr ((t, s) # rest)))"

definition select_cols :: "DataFrame \<Rightarrow> string list \<Rightarrow> pyexc + DataFrame" where
  "select_cols data ts = bind_exc (getitems data ts) (\<lambda>cs. Inr (data\<lparr>cols := cs\<rparr>))"

fun dropna :: "series \<Rightarrow> real list" where
  "dropna [] = []"
| "dropna (None # xs) = dropna xs"
| "dropna (Some x # xs) = x # dropna xs"

section \<open>analysis_tools.py\<close>

subsection \<open>The statistics of one column\<close>

text \<open>
  \<open>describe()\<close> skips missing values. Count, mean, min and max are written out; the
  standard deviation, the quantiles, the skewness and the kurtosis are the library's
  functions, taken as parameters.
\<close>

record statlib =
  lib_std :: "series \<Rightarrow> pyfloat"
  lib_quantile :: "real \<Rightarrow> series \<Rightarrow> pyfloat"
  lib_skew :: "series \<Rightarrow> pyfloat"
  lib_kurt :: "series \<Rightarrow> pyfloat"

definition nancount :: "series \<Rightarrow> pyfloat" where
  "nancount s = Some (real (length (dropna s)))"

definition nanmean :: "series \<Rightarrow> pyfloat" where
  "nanmean s =
     (if dropna s = [] then None
      else Some (sum_list (dropna s) / real (length (dropna s))))"

fun nanmin :: "series \<Rightarrow> pyfloat" where
  "nanmin s = (case dropna s of [] \<Rightarrow> None | x # xs \<Rightarrow> Some (fold min xs x))"

fun nanmax :: "series \<Rightarrow> pyfloat" where
  "nanmax s = (case dropna s of [] \<Rightarrow> None | x # xs \<Rightarrow> Some (fold max xs x))"

text \<open>A row of the result: the statistics by name, in the order of the result's columns.\<close>

type_synonym stats_row = "(string \<times> pyfloat) list"

type_synonym stats_frame = "(string \<times> stats_row) list"

definition stat :: "stats_row \<Rightarrow> string \<Rightarrow> pyexc + pyfloat" where
  "stat r name = (case map_of r name of None \<Rightarrow> Inl (KeyError name) | Some v \<Rightarrow> Inr v)"

definition describe_col :: "statlib \<Rightarrow> series \<Rightarrow> stats_row" where
  "describe_col lib s =
     [(''count'', nancount s), (''mean'', nanmean s), (''std'', lib_std lib s),
      (''min'', nanmin s), (''25%'', lib_quantile lib (1/4) s),
      (''50%'', lib_quantile lib (1/2) s), (''75%'', lib_quantile lib (3/4) s),
      (''max'', nanmax s)]"

text \<open>\<open>frame.describe().T\<close>: one row per column of the frame, in column order.\<close>

definition describe_T :: "statlib \<Rightarrow> DataFrame \<Rightarrow> stats_frame" where
  "describe_T lib data = map (\<lambda>(t, s). (t, describe_col lib s)) (cols data)"

text \<open>\<open>frame.skew()\<close> and \<open>frame.kurt()\<close>: one value per column, in column order.\<close>

definition skew :: "statlib \<Rightarrow> DataFrame \<Rightarrow> (string \<times> pyfloat) list" where
  "skew lib data = map (\<lambda>(t, s). (t, lib_skew lib s)) (cols data)"

definition kurt :: "statlib \<Rightarrow> DataFrame \<Rightarrow> (string \<times> pyfloat) list" where
  "kurt lib data = map (\<lambda>(t, s). (t, lib_kurt lib s)) (cols data)"

text \<open>
  \<open>stats[name] = values\<close>: a new last column. Both sides carry the labels of the same
  sub-table in the same order, so the values are stored row by row.
\<close>

definition setitem :: "stats_frame \<Rightarrow> string \<Rightarrow> (string \<times> pyfloat) list \<Rightarrow> stats_frame" where
  "setitem stats name vals =
     map (\<lambda>((t, r), (_, v)). (t, r @ [(name, v)])) (zip stats vals)"

subsection \<open>descriptive_stats\<close>

definition descriptive_stats ::
  "statlib \<Rightarrow> DataFrame \<Rightarrow> string list \<Rightarrow> pyexc + stats_frame" where
  "descriptive_stats lib data tickers =
     (let valid_tickers = filter (\<lambda>t. t \<in> set (columns data)) tickers in
      if valid_tickers = []
      then Inl (ValueError ''None of the provided tickers are found in the dataset.'')
      else bind_exc (select_cols data valid_tickers) (\<lambda>sub.
           Inr (setitem (setitem (describe_T lib sub) ''skewness'' (skew lib sub))
                        ''kurtosis'' (kurt lib sub))))"

subsection \<open>ts_stationarity\<close>

text \<open>
  The Augmented Dickey-Fuller test is the library's: given the values of a series it
  raises or returns a result whose first two components are the statistic and the
  p-value. The threshold \<open>0.05\<close> is the real \<open>5/100\<close>: the float nearest to it lies
  above it and the float before that below it, so a float p-value is below the one
  exactly when it is below the other.
\<close>

type_synonym adfuller = "real list \<Rightarrow> pyexc + (pyfloat \<times> pyfloat)"

record adf_row =
  Ticker :: string
  ADF_Statistic :: pyfloat
  p_value :: pyfloat
  Stationary :: string

definition adf_entry :: "string \<Rightarrow> pyfloat \<times> pyfloat \<Rightarrow> adf_row" where
  "adf_entry stock adf =
     \<lparr>Ticker = stock, ADF_Statistic = fst adf, p_value = snd adf,
      Stationary = (if flt (snd adf) (Some (5/100)) then ''Yes'' else ''No'')\<rparr>"

fun adf_loop ::
  "adfuller \<Rightarrow> DataFrame \<Rightarrow> string list \<Rightarrow> adf_row list \<Rightarrow> pyexc + adf_row list" where
  "adf_loop adfuller data [] adfuller_stats = Inr adfuller_stats"
| "adf_loop adfuller data (stock # rest) adfuller_stats =
     bind_exc (getitem data stock) (\<lambda>s.
     bind_exc (adfuller (dropna s)) (\<lambda>adf.
     adf_loop adfuller data rest (adfuller_stats @ [adf_entry stock adf])))"

definition ts_stationarity :: "adfuller \<Rightarrow> DataFrame \<Rightarrow> pyexc + adf_row list" where
  "ts_stationarity adfuller data = adf_loop adfuller data (columns data) []"

section \<open>data_loader.py\<close>

text \<open>
  A \<open>datetime\<close>: the day as its proleptic Gregorian ordinal (day 1 is 0001-01-01, day
  3652059 is 9999-12-31) and the microseconds since midnight. \<open>timedelta(days=d)\<close> accepts
  at most 999999999 days in either direction; subtracting whole days moves the ordinal
  and raises \<open>OverflowError\<close> outside the calendar.
\<close>

record datetime =
  ordinal :: int
  micros :: int

definition timedelta :: "int \<Rightarrow> pyexc + int" where
  "timedelta days =
     (if \<bar>days\<bar> \<le> 999999999 then Inr days
      else Inl (OverflowError ''days; must have magnitude <= 999999999''))"

definition datetime_sub :: "datetime \<Rightarrow> int \<Rightarrow> pyexc + datetime" where
  "datetime_sub dt delta =
     (let d = ordinal dt - delta in
      if 1 \<le> d \<and> d \<le> 3652059 then Inr (dt\<lparr>ordinal := d\<rparr>)
      else Inl (OverflowError ''date value out of range''))"

text \<open>
  The provider call \<open>yf.download(tickers, start=start, end=end)\<close> and the clock
  \<open>datetime.today()\<close> are the environment of \<open>stock_data\<close>. The result is what was
  printed and what was returned; an exception that leaves the function is \<open>Inl\<close>.
  The date range is computed before the \<open>try\<close> block.
\<close>

type_synonym provider = "string list \<Rightarrow> datetime \<Rightarrow> datetime \<Rightarrow> pyexc + DataFrame"

definition stock_data ::
  "provider \<Rightarrow> datetime \<Rightarrow> string list \<Rightarrow> int \<Rightarrow> pyexc + (string list \<times> DataFrame option)" where
  "stock_data download today tickers days =
     (let end_dt = today in
      bind_exc (timedelta days) (\<lambda>delta.
      bind_exc (datetime_sub end_dt delta) (\<lambda>start.
        case download tickers start end_dt of
          Inr data \<Rightarrow> Inr ([], Some (data\<lparr>index_name := None, columns_name := None\<rparr>))
        | Inl E \<Rightarrow> Inr ([''Error al descargar datos: '' @ str_exc E], None))))"


section \<open>visualisation.py\<close>

text \<open>
  An axes is the list of the calls made on it, in order. The calls that consume data
  (\<open>plot\<close>, \<open>hist\<close>, \<open>boxplot\<close>, \<open>plot_acf\<close>, \<open>plot_pacf\<close>) are the library's and may
  raise: \<open>draws lib d\<close> is the exception the library raises for the call \<open>d\<close>, if any.
  Titles, labels, grids and \<open>axis('off')\<close> only record. Layout calls
  (\<open>figsize\<close>, \<open>tight_layout\<close>) leave the cells as they are.
\<close>

datatype draw =
    Plot "int list" series string
  | PlotLine series
  | Hist series
  | Boxplot "real list"
  | PlotAcf "real list" nat
  | PlotPacf "real list" nat
  | SetTitle string
  | SetXlabel string
  | SetYlabel string
  | SetXticks
  | Grid
  | Legend
  | AxisOff

type_synonym ax = "draw list"

text \<open>
  What \<open>plt.subplots(nrows, ncols)\<close> returns: with the default \<open>squeeze\<close>, a single axes
  for a 1 by 1 grid, a one-dimensional array when there is one row or one column, and a
  two-dimensional array otherwise.
\<close>

datatype axes_array = AxSingle ax | Ax1D "ax list" | Ax2D "ax list list"

record figure =
  cells :: axes_array
  suptitle :: "string option"

record decomposition =
  trend :: series
  seasonal :: series
  resid :: series

record plotlib =
  draws :: "draw \<Rightarrow> pyexc option"
  seasonal_decompose :: "real list \<Rightarrow> string \<Rightarrow> nat \<Rightarrow> pyexc + decomposition"

definition artist :: "plotlib \<Rightarrow> draw \<Rightarrow> ax \<Rightarrow> pyexc + ax" where
  "artist lib d a = (case draws lib d of Some e \<Rightarrow> Inl e | None \<Rightarrow> Inr (a @ [d]))"

definition setter :: "draw list \<Rightarrow> ax \<Rightarrow> pyexc + ax" where
  "setter ds a = Inr (a @ ds)"

definition subplots :: "nat \<Rightarrow> nat \<Rightarrow> pyexc + axes_array" where
  "subplots nrows ncols =
     (if nrows = 0 then Inl (ValueError ''Number of rows must be a positive integer, not 0'')
      else if ncols = 0 then Inl (ValueError ''Number of columns must be a positive integer, not 0'')
      else if nrows = 1 \<and> ncols = 1 then Inr (AxSingle [])
      else if nrows = 1 then Inr (Ax1D (replicate ncols []))
      else if ncols = 1 then Inr (Ax1D (replicate nrows []))
      else Inr (Ax2D (replicate nrows (replicate ncols []))))"

fun flatten :: "axes_array \<Rightarrow> pyexc + ax list" where
  "flatten (AxSingle a) = Inl (AttributeError ''Axes object has no attribute flatten'')"
| "flatten (Ax1D xs) = Inr xs"
| "flatten (Ax2D xss) = Inr (concat xss)"

text \<open>\<open>axes[i].method(...)\<close> on a flat array, and \<open>axes[i, j].method(...)\<close>.\<close>

definition on_cell :: "ax list \<Rightarrow> nat \<Rightarrow> (ax \<Rightarrow> pyexc + ax) \<Rightarrow> pyexc + ax list" where
  "on_cell axes i f =
     (if i < length axes then bind_exc (f (axes ! i)) (\<lambda>a. Inr (axes[i := a]))
      else Inl (IndexError ''index is out of bounds for axis 0''))"

fun on_cell2 :: "axes_array \<Rightarrow> nat \<Rightarrow> nat \<Rightarrow> (ax \<Rightarrow> pyexc + ax) \<Rightarrow> pyexc + axes_array" where
  "on_cell2 (AxSingle a) i j f = Inl (TypeError ''Axes object is not subscriptable'')"
| "on_cell2 (Ax1D xs) i j f =
     Inl (IndexError ''too many indices for array: array is 1-dimensional, but 2 were indexed'')"
| "on_cell2 (Ax2D xss) i j f =
     (if i < length xss then
        (if j < length (xss ! i)
         then bind_exc (f (xss ! i ! j)) (\<lambda>a. Inr (Ax2D (xss[i := (xss ! i)[j := a]])))
         else Inl (IndexError ''index is out of bounds for axis 1''))
      else Inl (IndexError ''index is out of bounds for axis 0''))"

definition tracking_plot ::
  "plotlib \<Rightarrow> DataFrame \<Rightarrow> string list \<Rightarrow> string \<Rightarrow> string \<Rightarrow> string \<Rightarrow> pyexc + figure" where
  "tracking_plot lib data tickers title xlabel ylabel =
     bind_exc (for_each (\<lambda>t a.
                 bind_exc (getitem data t) (\<lambda>s. artist lib (Plot (row_index data) s t) a))
               tickers []) (\<lambda>a.
     bind_exc (setter [SetTitle title, SetXlabel xlabel, SetYlabel ylabel, Legend, Grid] a) (\<lambda>a.
     Inr \<lparr>cells = AxSingle a, suptitle = None\<rparr>))"

definition plot_histograms :: "plotlib \<Rightarrow> DataFrame \<Rightarrow> string list \<Rightarrow> pyexc + figure" where
  "plot_histograms lib data tickers =
     (let n = length tickers; rows = (n + 2) div 3; cols = 3 in
      bind_exc (subplots rows cols) (\<lambda>axes.
      bind_exc (flatten axes) (\<lambda>axes.
      bind_exc (for_each (\<lambda>(i, ticker) axes.
                  if ticker \<in> set (columns data)
                  then on_cell axes i (\<lambda>a.
                         bind_exc (getitem data ticker) (\<lambda>s.
                         bind_exc (artist lib (Hist s) a)
                           (setter [SetTitle (ticker @ '' Returns''), SetXlabel ''Return'',
                                    SetYlabel ''Frequency''])))
                  else on_cell axes i (setter [AxisOff]))
                (enumerate 0 tickers) axes) (\<lambda>axes.
      bind_exc (for_each (\<lambda>j axes. on_cell axes j (setter [AxisOff]))
                [length tickers ..< length axes] axes) (\<lambda>axes.
      Inr \<lparr>cells = Ax1D axes, suptitle = None\<rparr>)))))"

definition plot_boxplots :: "plotlib \<Rightarrow> DataFrame \<Rightarrow> string list \<Rightarrow> pyexc + figure" where
  "plot_boxplots lib data tickers =
     (let n = length tickers; rows = (n + 2) div 3; cols = 3 in
      bind_exc (subplots rows cols) (\<lambda>axes.
      bind_exc (flatten axes) (\<lambda>axes.
      bind_exc (for_each (\<lambda>(i, ticker) axes.
                  if ticker \<in> set (columns data)
                  then on_cell axes i (\<lambda>a.
                         bind_exc (getitem data ticker) (\<lambda>s.
                         bind_exc (artist lib (Boxplot (dropna s)) a)
                           (setter [SetTitle (ticker @ '' Returns''), SetYlabel ''Return'',
                                    SetXticks])))
                  else on_cell axes i (setter [AxisOff]))
                (enumerate 0 tickers) axes) (\<lambda>axes.
      bind_exc (for_each (\<lambda>j axes. on_cell axes j (setter [AxisOff]))
                [length tickers ..< length axes] axes) (\<lambda>axes.
      Inr \<lparr>cells = Ax1D axes, suptitle = None\<rparr>)))))"

definition ts_decomposition :: "plotlib \<Rightarrow> DataFrame \<Rightarrow> string list \<Rightarrow> pyexc + figure" where
  "ts_decomposition lib data tickers =
     (let n = length tickers in
      bind_exc (subplots n 3) (\<lambda>axes.
      bind_exc (for_each (\<lambda>(i, ticker) axes.
                  bind_exc (getitem data ticker) (\<lambda>s.
                  bind_exc (seasonal_decompose lib (dropna s) ''additive'' 30) (\<lambda>dec.
                  bind_exc (on_cell2 axes i 0 (\<lambda>a.
                              bind_exc (artist lib (PlotLine (trend dec)) a)
                                (setter [SetTitle (ticker @ '' - Trend''), Grid]))) (\<lambda>axes.
                  bind_exc (on_cell2 axes i 1 (\<lambda>a.
                              bind_exc (artist lib (PlotLine (seasonal dec)) a)
                                (setter [SetTitle (ticker @ '' - Seasonal''), Grid]))) (\<lambda>axes.
                  on_cell2 axes i 2 (\<lambda>a.
                              bind_exc (artist lib (PlotLine (resid dec)) a)
                                (setter [SetTitle (ticker @ '' - Residuals''), Grid])))))))
                (enumerate 0 (columns data)) axes) (\<lambda>axes.
      Inr \<lparr>cells = axes, suptitle = Some ''Seasonal Decomposition of Stock Prices''\<rparr>)))"

definition acf_pacf :: "plotlib \<Rightarrow> DataFrame \<Rightarrow> string list \<Rightarrow> pyexc + figure" where
  "acf_pacf lib data tickers =
     (let n = length tickers in
      bind_exc (subplots n 2) (\<lambda>axes.
      bind_exc (for_each (\<lambda>(i, ticker) axes.
                  bind_exc (getitem data ticker) (\<lambda>s.
                  bind_exc (on_cell2 axes i 0 (\<lambda>a.
                              bind_exc (artist lib (PlotAcf (dropna s) 25) a)
                                (setter [SetTitle (ticker @ '' - Autocorrelation (ACF)'')]))) (\<lambda>axes.
                  bind_exc (getitem data ticker) (\<lambda>s.
                  on_cell2 axes i 1 (\<lambda>a.
                              bind_exc (artist lib (PlotPacf (dropna s) 25) a)
                                (setter [SetTitle (ticker @ '' - Partial Autocorrelation (PACF)'')]))))))
                (enumerate 0 (columns data)) axes) (\<lambda>axes.
      Inr \<lparr>cells = axes, suptitle = Some ''ACF and PACF for Stock Returns''\<rparr>)))"

section \<open>What the results are compared with\<close>

text \<open>The tickers of the list that are columns of the table, in the list's order.\<close>

definition valid :: "DataFrame \<Rightarrow> string list \<Rightarrow> string list" where
  "valid data tickers = filter (\<lambda>t. t \<in> set (columns data)) tickers"

text \<open>The finished row of a column: the eight statistics, then skewness and kurtosis.\<close>

definition full_row :: "statlib \<Rightarrow> series \<Rightarrow> stats_row" where
  "full_row lib s =
     describe_col lib s @ [(''skewness'', lib_skew lib s), (''kurtosis'', lib_kurt lib s)]"



text \<open>
  The finished cell of a ticker in the histogram and the boxplot grid: the chart and its
  labels when the ticker is a column, a cell switched off when it is not.
\<close>

definition hist_cell :: "DataFrame \<Rightarrow> string \<Rightarrow> ax" where
  "hist_cell data ticker =
     (case getitem data ticker of
        Inr s \<Rightarrow> [Hist s, SetTitle (ticker @ '' Returns''), SetXlabel ''Return'',
                  SetYlabel ''Frequency'']
      | Inl _ \<Rightarrow> [AxisOff])"

definition box_cell :: "DataFrame \<Rightarrow> string \<Rightarrow> ax" where
  "box_cell data ticker =
     (case getitem data ticker of
        Inr s \<Rightarrow> [Boxplot (dropna s), SetTitle (ticker @ '' Returns''), SetYlabel ''Return'',
                  SetXticks]
      | Inl _ \<Rightarrow> [AxisOff])"

section \<open>Concrete inputs\<close>

definition ex_lib :: statlib where
  "ex_lib = \<lparr>lib_std = (\<lambda>s. None), lib_quantile = (\<lambda>q s. None),
             lib_skew = (\<lambda>s. None), lib_kurt = (\<lambda>s. None)\<rparr>"

definition ex_table :: DataFrame where
  "ex_table = \<lparr>index_name = Some ''Date'', columns_name = Some ''Ticker'',
               row_index = [1, 2, 3],
               cols = [(''A'', [Some 1, Some 3, None]), (''B'', [Some 2, None, Some 4])]\<rparr>"



text \<open>A test that rejects series of fewer than two values.\<close>

definition ex_adfuller :: adfuller where
  "ex_adfuller xs =
     (if length xs < 2 then Inl (ValueError ''sample size is too short to use selected regression component'')
      else Inr (Some (- real (length xs)), Some (sum_list xs / 100)))"

text \<open>3 November 2026, midnight.\<close>

definition ex_today :: datetime where
  "ex_today = \<lparr>ordinal = 739923, micros = 0\<rparr>"

definition ex_download :: provider where
  "ex_download tickers start end_dt =
     (if tickers = [] then Inl (ProviderError ''No tickers provided'') else Inr ex_table)"

text \<open>
  A plotting library with the preconditions of the real one: two full periods for the
  decomposition, more than twice the lags for the partial autocorrelation.
\<close>

definition ex_plotlib :: plotlib where
  "ex_plotlib =
     \<lparr>draws = (\<lambda>d. case d of
                  PlotPacf xs lags \<Rightarrow>
                    if length xs \<le> 2 * lags
                    then Some (ValueError ''Can only compute partial correlations for lags up to 50% of the sample size'')
                    else None
                | _ \<Rightarrow> None),
      seasonal_decompose = (\<lambda>xs model period.
                  if length xs < 2 * period
                  then Inl (ValueError ''x must have 2 complete cycles'')
                  else Inr \<lparr>trend = map Some xs, seasonal = map (\<lambda>x. Some 0) xs,
                            resid = map (\<lambda>x. Some 0) xs\<rparr>)\<rparr>"

text \<open>Sixty days of prices, enough for a period of 30 and for 25 lags.\<close>

definition prices60 :: DataFrame where
  "prices60 = \<lparr>index_name = None, columns_name = None, row_index = map int [0..<60],
               cols = [(''A'', map (\<lambda>i. Some (real i)) [0..<60])]\<rparr>"

definition prices60x3 :: DataFrame where
  "prices60x3 = \<lparr>index_name = None, columns_name = None, row_index = map int [0..<60],
               cols = [(''A'', map (\<lambda>i. Some (real i)) [0..<60]),
                       (''B'', map (\<lambda>i. Some (real i)) [0..<60]),
                       (''C'', map (\<lambda>i. Some (real i)) [0..<60])]\<rparr>"

section \<open>Tables and columns\<close>

lemma getitem_in:
  "t \<in> set (columns data) \<Longrightarrow> \<exists>s. getitem data t = Inr s \<and> map_of (cols data) t = Some s"
  by (auto simp: getitem_def columns_def map_of_eq_None_iff split: option.splits)


lemma getitems_valid:
  "set ts \<subseteq> set (columns data) \<Longrightarrow>
   getitems data ts = Inr (map (\<lambda>t. (t, the (map_of (cols data) t))) ts)"
proof (induction ts)
  case Nil
  then show ?case by simp
next
  case (Cons t ts)
  from Cons.prems obtain s where s: "getitem data t = Inr s" "map_of (cols data) t = Some s"
    using getitem_in by fastforce
  with Cons show ?case by (simp add: bind_exc_def)
qed

lemma dropna_map_Some: "dropna (map (\<lambda>i. Some (f i)) xs) = map f xs"
  by (induction xs) auto

lemma bind_exc_assoc: "bind_exc (bind_exc m f) g = bind_exc m (\<lambda>x. bind_exc (f x) g)"
  by (cases m) (simp_all add: bind_exc_def)

lemma ex_table_columns: "columns ex_table = [''A'', ''B'']"
  by (simp add: columns_def ex_table_def)

lemma ex_table_getitem:
  "getitem ex_table ''A'' = Inr [Some 1, Some 3, None]"
  "getitem ex_table ''B'' = Inr [Some 2, None, Some 4]"
  by (simp_all add: getitem_def ex_table_def)

section \<open>Descriptive statistics\<close>

lemma descriptive_stats_eq:
  assumes "valid data tickers \<noteq> []"
  shows "descriptive_stats lib data tickers =
         Inr (map (\<lambda>t. (t, full_row lib (the (map_of (cols data) t)))) (valid data tickers))"
proof -
  have sub: "set (valid data tickers) \<subseteq> set (columns data)"
    by (auto simp: valid_def)
  show ?thesis
    using assms
    by (simp add: descriptive_stats_def Let_def valid_def[symmetric] select_cols_def
        getitems_valid[OF sub] bind_exc_def describe_T_def skew_def kurt_def setitem_def
        full_row_def zip_map_map zip_same_conv_map o_def)
qed

lemma descriptive_stats_none:
  "valid data tickers = [] \<Longrightarrow> descriptive_stats lib data tickers =
     Inl (ValueError ''None of the provided tickers are found in the dataset.'')"
  by (simp add: descriptive_stats_def valid_def)

lemma valid_empty_iff: "(valid data tickers = []) = (set tickers \<inter> set (columns data) = {})"
  by (auto simp: valid_def filter_empty_conv)

lemma valid_labels:
  assumes "valid data tickers \<noteq> []"
  shows "\<exists>rows. descriptive_stats lib data tickers = Inr rows \<and> map fst rows = valid data tickers"
  using descriptive_stats_eq[OF assms, of lib] by (simp add: o_def)

subsection \<open>The mean lies between the extremes\<close>








subsection \<open>Repeated tickers\<close>



subsection \<open>Claims\<close>

text \<open>
  Claim C1. For every table and ticker list: when no ticker of the list is a column of the
  table, \<open>descriptive_stats\<close> raises \<open>ValueError\<close>, and the exception is the result the
  caller gets (nothing inside the function handles it); when at least one ticker of the list
  is a column, it returns a result and raises nothing.
\<close>

theorem descriptive_stats_invalid_input:
  "(set tickers \<inter> set (columns data) = {} \<longrightarrow>
      descriptive_stats lib data tickers =
        Inl (ValueError ''None of the provided tickers are found in the dataset.''))
   \<and> (set tickers \<inter> set (columns data) \<noteq> {} \<longrightarrow>
      (\<exists>rows. descriptive_stats lib data tickers = Inr rows))"
proof (cases "valid data tickers = []")
  case True
  then show ?thesis using descriptive_stats_none[of data tickers lib] valid_empty_iff[of data tickers] by simp
next
  case False
  then show ?thesis using valid_labels[of data tickers lib] valid_empty_iff[of data tickers] by blast
qed

theorem descriptive_stats_invalid_input_witness:
  "set [''X'', ''Y''] \<inter> set (columns ex_table) = {}
   \<and> descriptive_stats ex_lib ex_table [''X'', ''Y''] =
        Inl (ValueError ''None of the provided tickers are found in the dataset.'')
   \<and> set [''X'', ''B''] \<inter> set (columns ex_table) \<noteq> {}
   \<and> (\<exists>rows. descriptive_stats ex_lib ex_table [''X'', ''B''] = Inr rows)"
proof -
  have a: "set [''X'', ''Y''] \<inter> set (columns ex_table) = {}"
    by (simp add: columns_def ex_table_def)
  have b: "set [''X'', ''B''] \<inter> set (columns ex_table) \<noteq> {}"
    by (simp add: columns_def ex_table_def)
  show ?thesis
    using a b descriptive_stats_invalid_input[of "[''X'', ''Y'']" ex_table ex_lib]
      descriptive_stats_invalid_input[of "[''X'', ''B'']" ex_table ex_lib]
    by blast
qed






section \<open>Stationarity test\<close>

lemma adf_loop_rows:
  "adf_loop adfuller data cs acc = Inr rows \<Longrightarrow>
   \<exists>new. rows = acc @ new \<and>
     list_all2 (\<lambda>c row. \<exists>s r. getitem data c = Inr s \<and> adfuller (dropna s) = Inr r
                              \<and> row = adf_entry c r) cs new"
proof (induction cs arbitrary: acc)
  case Nil
  then show ?case by simp
next
  case (Cons c cs)
  from Cons.prems obtain s where s: "getitem data c = Inr s"
    by (cases "getitem data c") (auto simp: bind_exc_def)
  from Cons.prems s obtain r where r: "adfuller (dropna s) = Inr r"
    by (cases "adfuller (dropna s)") (auto simp: bind_exc_def)
  from Cons.prems s r have "adf_loop adfuller data cs (acc @ [adf_entry c r]) = Inr rows"
    by (simp add: bind_exc_def)
  from Cons.IH[OF this] obtain new where new: "rows = (acc @ [adf_entry c r]) @ new"
    "list_all2 (\<lambda>c row. \<exists>s r. getitem data c = Inr s \<and> adfuller (dropna s) = Inr r
                              \<and> row = adf_entry c r) cs new"
    by blast
  have "rows = acc @ (adf_entry c r # new)" using new(1) by simp
  moreover have "list_all2 (\<lambda>c row. \<exists>s r. getitem data c = Inr s \<and> adfuller (dropna s) = Inr r
                              \<and> row = adf_entry c r) (c # cs) (adf_entry c r # new)"
    using new(2) s r by (cases r) auto
  ultimately show ?case by blast
qed

lemma adf_loop_returns:
  "set cs \<subseteq> set (columns data) \<Longrightarrow>
   (\<forall>c \<in> set cs. \<forall>s. getitem data c = Inr s \<longrightarrow> (\<exists>r. adfuller (dropna s) = Inr r)) \<Longrightarrow>
   \<exists>rows. adf_loop adfuller data cs acc = Inr rows"
proof (induction cs arbitrary: acc)
  case Nil
  then show ?case by simp
next
  case (Cons c cs)
  from Cons.prems(1) obtain s where s: "getitem data c = Inr s"
    using getitem_in[of c data] by auto
  with Cons.prems(2) obtain r where r: "adfuller (dropna s) = Inr r" by auto
  have "\<exists>rows. adf_loop adfuller data cs (acc @ [adf_entry c r]) = Inr rows"
    using Cons.IH Cons.prems by simp
  then show ?case using s r by (simp add: bind_exc_def)
qed

lemma adf_loop_raises:
  "i < length cs \<Longrightarrow> getitem data (cs ! i) = Inr s \<Longrightarrow> adfuller (dropna s) = Inl e \<Longrightarrow>
   \<exists>e'. adf_loop adfuller data cs acc = Inl e'"
proof (induction cs arbitrary: acc i)
  case Nil
  then show ?case by simp
next
  case (Cons c cs)
  show ?case
  proof (cases i)
    case 0
    then show ?thesis using Cons.prems by (simp add: bind_exc_def)
  next
    case (Suc j)
    then have "\<And>acc'. \<exists>e'. adf_loop adfuller data cs acc' = Inl e'"
      using Cons.IH[of j] Cons.prems by simp
    then show ?thesis
      by (cases "getitem data c"; cases "adfuller (dropna (projr (getitem data c)))")
         (auto simp: bind_exc_def)
  qed
qed

lemma ex_adfuller_values:
  "ex_adfuller (dropna [Some 1, Some 3, None]) = Inr (Some (- 2), Some (4/100))"
  "ex_adfuller (dropna [Some 2, None, Some 4]) = Inr (Some (- 2), Some (6/100))"
  by (simp_all add: ex_adfuller_def)

lemma ex_table_adf_ok:
  "\<forall>c \<in> set (columns ex_table). \<forall>s. getitem ex_table c = Inr s \<longrightarrow> (\<exists>r. ex_adfuller (dropna s) = Inr r)"
  using ex_adfuller_values by (auto simp: ex_table_columns ex_table_getitem)

text \<open>
  Claim C3. For every table and every column of it, \<open>ts_stationarity\<close> runs the test on the
  column's values without the missing ones, takes the statistic and the p-value from the
  test's result, and labels the column \<open>Yes\<close> exactly when the p-value is strictly below
  \<open>0.05\<close> and \<open>No\<close> otherwise (also for a NaN p-value). The function returns whenever the
  test returns for every column.
\<close>

theorem ts_stationarity_classifies:
  "((\<forall>c \<in> set (columns data). \<forall>s. getitem data c = Inr s \<longrightarrow> (\<exists>r. adfuller (dropna s) = Inr r))
      \<longrightarrow> (\<exists>rows. ts_stationarity adfuller data = Inr rows))
   \<and> (\<forall>rows. ts_stationarity adfuller data = Inr rows \<longrightarrow>
        length rows = length (columns data) \<and>
        (\<forall>i < length (columns data). \<exists>s stat p.
            getitem data (columns data ! i) = Inr s
          \<and> adfuller (dropna s) = Inr (stat, p)
          \<and> Ticker (rows ! i) = columns data ! i
          \<and> ADF_Statistic (rows ! i) = stat
          \<and> p_value (rows ! i) = p
          \<and> (Stationary (rows ! i) = ''Yes'') = flt p (Some (5/100))
          \<and> (Stationary (rows ! i) = ''No'') = (\<not> flt p (Some (5/100)))))"
proof (intro conjI impI allI)
  assume "\<forall>c \<in> set (columns data). \<forall>s. getitem data c = Inr s \<longrightarrow> (\<exists>r. adfuller (dropna s) = Inr r)"
  then show "\<exists>rows. ts_stationarity adfuller data = Inr rows"
    unfolding ts_stationarity_def using adf_loop_returns[of "columns data" data adfuller "[]"] by blast
next
  fix rows assume a: "ts_stationarity adfuller data = Inr rows"
  from adf_loop_rows[OF a[unfolded ts_stationarity_def]]
  have l: "list_all2 (\<lambda>c row. \<exists>s r. getitem data c = Inr s \<and> adfuller (dropna s) = Inr r
                              \<and> row = adf_entry c r) (columns data) rows" by simp
  then show "length rows = length (columns data)" by (simp add: list_all2_lengthD)
next
  fix rows i assume a: "ts_stationarity adfuller data = Inr rows" and i: "i < length (columns data)"
  from adf_loop_rows[OF a[unfolded ts_stationarity_def]]
  have l: "list_all2 (\<lambda>c row. \<exists>s r. getitem data c = Inr s \<and> adfuller (dropna s) = Inr r
                              \<and> row = adf_entry c r) (columns data) rows" by simp
  from list_all2_nthD[OF l i] obtain s r where
    sr: "getitem data (columns data ! i) = Inr s" "adfuller (dropna s) = Inr r"
        "rows ! i = adf_entry (columns data ! i) r" by blast
  obtain stat p where r: "r = (stat, p)" by (cases r)
  show "\<exists>s stat p.
            getitem data (columns data ! i) = Inr s
          \<and> adfuller (dropna s) = Inr (stat, p)
          \<and> Ticker (rows ! i) = columns data ! i
          \<and> ADF_Statistic (rows ! i) = stat
          \<and> p_value (rows ! i) = p
          \<and> (Stationary (rows ! i) = ''Yes'') = flt p (Some (5/100))
          \<and> (Stationary (rows ! i) = ''No'') = (\<not> flt p (Some (5/100)))"
    using sr r by (auto simp: adf_entry_def)
qed

theorem ts_stationarity_classifies_witness:
  "columns ex_table = [''A'', ''B'']
   \<and> getitem ex_table ''A'' = Inr [Some 1, Some 3, None]
   \<and> getitem ex_table ''B'' = Inr [Some 2, None, Some 4]
   \<and> ex_adfuller (dropna [Some 1, Some 3, None]) = Inr (Some (- 2), Some (4/100))
   \<and> ex_adfuller (dropna [Some 2, None, Some 4]) = Inr (Some (- 2), Some (6/100))
   \<and> (\<exists>rows. ts_stationarity ex_adfuller ex_table = Inr rows
        \<and> length rows = 2
        \<and> p_value (rows ! 0) = Some (4/100) \<and> Stationary (rows ! 0) = ''Yes''
        \<and> p_value (rows ! 1) = Some (6/100) \<and> Stationary (rows ! 1) = ''No'')"
proof -
  note inst = ts_stationarity_classifies[of ex_table ex_adfuller]
  from inst ex_table_adf_ok obtain rows where r: "ts_stationarity ex_adfuller ex_table = Inr rows"
    by blast
  from inst r have all: "\<forall>i < length (columns ex_table). \<exists>s stat p.
            getitem ex_table (columns ex_table ! i) = Inr s
          \<and> ex_adfuller (dropna s) = Inr (stat, p)
          \<and> Ticker (rows ! i) = columns ex_table ! i
          \<and> ADF_Statistic (rows ! i) = stat
          \<and> p_value (rows ! i) = p
          \<and> (Stationary (rows ! i) = ''Yes'') = flt p (Some (5/100))
          \<and> (Stationary (rows ! i) = ''No'') = (\<not> flt p (Some (5/100)))"
    and len: "length rows = length (columns ex_table)"
    by blast+
  have "(0::nat) < length (columns ex_table)" by (simp add: ex_table_columns)
  with all obtain s0 stat0 p0 where
    a0: "getitem ex_table (columns ex_table ! 0) = Inr s0"
        "ex_adfuller (dropna s0) = Inr (stat0, p0)"
        "p_value (rows ! 0) = p0"
        "(Stationary (rows ! 0) = ''Yes'') = flt p0 (Some (5/100))"
    by blast
  from a0(1) have "s0 = [Some 1, Some 3, None]" by (simp add: ex_table_columns ex_table_getitem)
  with a0(2) have "p0 = Some (4/100)" using ex_adfuller_values(1) by simp
  with a0 have r0: "p_value (rows ! 0) = Some (4/100) \<and> Stationary (rows ! 0) = ''Yes''"
    by simp
  have "(1::nat) < length (columns ex_table)" by (simp add: ex_table_columns)
  with all obtain s1 stat1 p1 where
    a1: "getitem ex_table (columns ex_table ! 1) = Inr s1"
        "ex_adfuller (dropna s1) = Inr (stat1, p1)"
        "p_value (rows ! 1) = p1"
        "(Stationary (rows ! 1) = ''No'') = (\<not> flt p1 (Some (5/100)))"
    by blast
  from a1(1) have "s1 = [Some 2, None, Some 4]" by (simp add: ex_table_columns ex_table_getitem)
  with a1(2) have "p1 = Some (6/100)" using ex_adfuller_values(2) by simp
  with a1 have r1: "p_value (rows ! 1) = Some (6/100) \<and> Stationary (rows ! 1) = ''No''"
    by simp
  from len have l2: "length rows = 2" by (simp add: ex_table_columns)
  from r l2 r0 r1 have "\<exists>rows. ts_stationarity ex_adfuller ex_table = Inr rows
        \<and> length rows = 2
        \<and> p_value (rows ! 0) = Some (4/100) \<and> Stationary (rows ! 0) = ''Yes''
        \<and> p_value (rows ! 1) = Some (6/100) \<and> Stationary (rows ! 1) = ''No''"
    by (intro exI[of _ rows] conjI) simp_all
  then show ?thesis
    using ex_table_columns ex_table_getitem ex_adfuller_values by (intro conjI)
qed

text \<open>
  Claim C7. For a table with \<open>N\<close> columns the stationarity result has exactly \<open>N\<close> rows, one
  per column, in the order of the columns. The function returns whenever the test returns
  for every column.
\<close>

theorem ts_stationarity_rows_in_column_order:
  "((\<forall>c \<in> set (columns data). \<forall>s. getitem data c = Inr s \<longrightarrow> (\<exists>r. adfuller (dropna s) = Inr r))
      \<longrightarrow> (\<exists>rows. ts_stationarity adfuller data = Inr rows))
   \<and> (\<forall>rows. ts_stationarity adfuller data = Inr rows \<longrightarrow>
        length rows = length (cols data) \<and> map Ticker rows = columns data)"
proof (intro conjI impI allI)
  assume "\<forall>c \<in> set (columns data). \<forall>s. getitem data c = Inr s \<longrightarrow> (\<exists>r. adfuller (dropna s) = Inr r)"
  then show "\<exists>rows. ts_stationarity adfuller data = Inr rows"
    unfolding ts_stationarity_def using adf_loop_returns[of "columns data" data adfuller "[]"] by blast
next
  fix rows assume a: "ts_stationarity adfuller data = Inr rows"
  from adf_loop_rows[OF a[unfolded ts_stationarity_def]]
  have l: "list_all2 (\<lambda>c row. \<exists>s r. getitem data c = Inr s \<and> adfuller (dropna s) = Inr r
                              \<and> row = adf_entry c r) (columns data) rows" by simp
  then have l2: "list_all2 (\<lambda>c row. Ticker row = c) (columns data) rows"
    by (rule list_all2_mono) (auto simp: adf_entry_def)
  show "length rows = length (cols data)" using l by (auto dest: list_all2_lengthD simp: columns_def)
  show "map Ticker rows = columns data"
    using l2 by (induction rule: list_all2_induct) auto
qed

theorem ts_stationarity_rows_in_column_order_witness:
  "columns ex_table = [''A'', ''B'']
   \<and> getitem ex_table ''A'' = Inr [Some 1, Some 3, None]
   \<and> getitem ex_table ''B'' = Inr [Some 2, None, Some 4]
   \<and> ex_adfuller (dropna [Some 1, Some 3, None]) = Inr (Some (- 2), Some (4/100))
   \<and> ex_adfuller (dropna [Some 2, None, Some 4]) = Inr (Some (- 2), Some (6/100))
   \<and> (\<exists>rows. ts_stationarity ex_adfuller ex_table = Inr rows
        \<and> length rows = 2 \<and> map Ticker rows = [''A'', ''B''])"
proof -
  note inst = ts_stationarity_rows_in_column_order[of ex_table ex_adfuller]
  from inst ex_table_adf_ok obtain rows where r: "ts_stationarity ex_adfuller ex_table = Inr rows"
    by blast
  with inst have "length rows = length (cols ex_table) \<and> map Ticker rows = columns ex_table"
    by blast
  then have "length rows = 2 \<and> map Ticker rows = [''A'', ''B'']"
    by (simp add: ex_table_columns) (simp add: ex_table_def)
  with r have "\<exists>rows. ts_stationarity ex_adfuller ex_table = Inr rows
        \<and> length rows = 2 \<and> map Ticker rows = [''A'', ''B'']"
    by (intro exI[of _ rows] conjI) simp_all
  then show ?thesis
    using ex_table_columns ex_table_getitem ex_adfuller_values by (intro conjI)
qed

section \<open>Loader\<close>


lemma stock_data_raises_before_download:
  "stock_data download today tickers days = Inl e \<Longrightarrow>
   stock_data download' today tickers days = Inl e"
  by (auto simp: stock_data_def timedelta_def datetime_sub_def bind_exc_def Let_def
      split: if_splits sum.splits)

text \<open>
  Claim C4. When the provider call raises, \<open>stock_data\<close> does not raise: it prints the
  message and returns \<open>None\<close>. Whatever exception does leave \<open>stock_data\<close> is independent of
  the provider: it comes from the date arithmetic before the \<open>try\<close> block.
\<close>

theorem stock_data_provider_failure:
  "(timedelta days = Inr delta \<and> datetime_sub today delta = Inr start
      \<and> download tickers start today = Inl E
    \<longrightarrow> stock_data download today tickers days =
          Inr ([''Error al descargar datos: '' @ str_exc E], None))
   \<and> (stock_data download today tickers days = Inl e
    \<longrightarrow> (\<forall>download'. stock_data download' today tickers days = Inl e))"
proof (intro conjI impI allI)
  assume "timedelta days = Inr delta \<and> datetime_sub today delta = Inr start
      \<and> download tickers start today = Inl E"
  then show "stock_data download today tickers days =
          Inr ([''Error al descargar datos: '' @ str_exc E], None)"
    by (simp add: stock_data_def bind_exc_def)
next
  fix download' assume "stock_data download today tickers days = Inl e"
  then show "stock_data download' today tickers days = Inl e"
    by (rule stock_data_raises_before_download)
qed

theorem stock_data_provider_failure_witness:
  "timedelta 200 = Inr 200
   \<and> datetime_sub ex_today 200 = Inr \<lparr>ordinal = 739723, micros = 0\<rparr>
   \<and> ex_download [] \<lparr>ordinal = 739723, micros = 0\<rparr> ex_today = Inl (ProviderError ''No tickers provided'')
   \<and> stock_data ex_download ex_today [] 200 =
        Inr ([''Error al descargar datos: No tickers provided''], None)
   \<and> stock_data ex_download ex_today [] 1000000 = Inl (OverflowError ''date value out of range'')
   \<and> stock_data (\<lambda>tickers start end_dt. Inl (KeyError ''AAPL'')) ex_today [] 1000000
        = Inl (OverflowError ''date value out of range'')"
proof -
  have a: "timedelta 200 = Inr 200" by (simp add: timedelta_def)
  have b: "datetime_sub ex_today 200 = Inr \<lparr>ordinal = 739723, micros = 0\<rparr>"
    by (simp add: datetime_sub_def ex_today_def)
  have c: "ex_download [] \<lparr>ordinal = 739723, micros = 0\<rparr> ex_today = Inl (ProviderError ''No tickers provided'')"
    by (simp add: ex_download_def)
  have d: "stock_data ex_download ex_today [] 1000000 = Inl (OverflowError ''date value out of range'')"
    by (simp add: stock_data_def timedelta_def datetime_sub_def ex_today_def bind_exc_def)
  from stock_data_provider_failure[of 200 200 ex_today "\<lparr>ordinal = 739723, micros = 0\<rparr>"
      ex_download "[]" "ProviderError ''No tickers provided''"] a b c
  have e: "stock_data ex_download ex_today [] 200 =
        Inr ([''Error al descargar datos: No tickers provided''], None)" by simp
  from stock_data_provider_failure[of 1000000 _ ex_today _ ex_download "[]" _
      "OverflowError ''date value out of range''"] d
  have f: "stock_data (\<lambda>tickers start end_dt. Inl (KeyError ''AAPL'')) ex_today [] 1000000
        = Inl (OverflowError ''date value out of range'')" by blast
  show ?thesis using a b c d e f by (intro conjI)
qed




section \<open>Charts\<close>

lemma ex_plotlib_draws:
  "draws ex_plotlib (Hist s) = None" "draws ex_plotlib (Boxplot xs) = None"
  "draws ex_plotlib (Plot ix s t) = None" "draws ex_plotlib (PlotLine s) = None"
  by (simp_all add: ex_plotlib_def)

lemma concat_replicate_replicate: "concat (replicate n (replicate m x)) = replicate (n * m) x"
  by (induction n) (auto simp: replicate_add)

lemma subplots_flatten:
  "0 < rows \<Longrightarrow> bind_exc (subplots rows 3) flatten = Inr (replicate (rows * 3) [])"
  by (auto simp: subplots_def bind_exc_def concat_replicate_replicate)

lemma for_each_enumerate_fill:
  assumes body: "\<And>i t axes. t \<in> set ts \<Longrightarrow> i < length axes \<Longrightarrow>
                   body (i, t) axes = Inr (axes[i := axes ! i @ ops t])"
  shows "for_each body (enumerate (length pre) ts) (pre @ replicate (length ts) [] @ post)
         = Inr (pre @ map ops ts @ post)"
  using body
proof (induction ts arbitrary: pre)
  case Nil
  then show ?case by simp
next
  case (Cons t ts)
  have step: "body (length pre, t) (pre @ replicate (length (t # ts)) [] @ post)
              = Inr (pre @ [ops t] @ replicate (length ts) [] @ post)"
    by (subst Cons.prems) (simp_all add: nth_append)
  have ih: "for_each body (enumerate (length (pre @ [ops t])) ts)
              ((pre @ [ops t]) @ replicate (length ts) [] @ post)
            = Inr ((pre @ [ops t]) @ map ops ts @ post)"
    by (rule Cons.IH) (simp add: Cons.prems)
  show ?case using step ih by (simp add: bind_exc_def)
qed

lemma for_each_off_fill:
  "for_each (\<lambda>j axes. on_cell axes j (setter ds)) [length pre ..< length pre + m]
     (pre @ replicate m []) = Inr (pre @ replicate m ds)"
proof (induction m arbitrary: pre)
  case 0
  then show ?case by simp
next
  case (Suc m)
  have step: "on_cell (pre @ replicate (Suc m) []) (length pre) (setter ds)
              = Inr ((pre @ [ds]) @ replicate m [])"
    by (simp add: on_cell_def setter_def bind_exc_def nth_append)
  have "for_each (\<lambda>j axes. on_cell axes j (setter ds))
          [length (pre @ [ds]) ..< length (pre @ [ds]) + m] ((pre @ [ds]) @ replicate m [])
        = Inr ((pre @ [ds]) @ replicate m ds)"
    by (rule Suc.IH)
  then show ?case using step
    by (simp add: upt_conv_Cons bind_exc_def replicate_app_Cons_same del: upt_Suc)
qed

lemma grid_rows: "(n::nat) \<le> 3 * ((n + 2) div 3) \<and> 3 * ((n + 2) div 3) < n + 3"
  by presburger

lemma rows_ceiling: "int ((n + 2) div 3) = \<lceil>real n / 3\<rceil>"
proof -
  have "\<lceil>real n / 3\<rceil> = \<lceil>(of_int (int n) :: real) / of_int 3\<rceil>" by simp
  also have "\<dots> = - (- int n div 3)" by (rule ceiling_divide_eq_div)
  also have "\<dots> = int ((n + 2) div 3)" by (simp add: zdiv_int)
  finally show ?thesis by simp
qed

lemma hist_body:
  assumes "\<And>s. getitem data t = Inr s \<Longrightarrow> draws lib (Hist s) = None" "i < length axes"
  shows "(if t \<in> set (columns data)
          then on_cell axes i (\<lambda>a.
                 bind_exc (getitem data t) (\<lambda>s.
                 bind_exc (artist lib (Hist s) a)
                   (setter [SetTitle (t @ '' Returns''), SetXlabel ''Return'',
                            SetYlabel ''Frequency''])))
          else on_cell axes i (setter [AxisOff]))
         = Inr (axes[i := axes ! i @ hist_cell data t])"
proof (cases "t \<in> set (columns data)")
  case True
  then obtain s where s: "getitem data t = Inr s" using getitem_in by blast
  with assms(1)[OF s] assms(2) True show ?thesis
    by (simp add: on_cell_def bind_exc_def artist_def setter_def hist_cell_def)
next
  case False
  then have "\<exists>e. getitem data t = Inl e"
    by (auto simp: getitem_def columns_def map_of_eq_None_iff split: option.splits)
  with assms(2) False show ?thesis
    by (auto simp: on_cell_def bind_exc_def setter_def hist_cell_def)
qed

lemma box_body:
  assumes "\<And>s. getitem data t = Inr s \<Longrightarrow> draws lib (Boxplot (dropna s)) = None" "i < length axes"
  shows "(if t \<in> set (columns data)
          then on_cell axes i (\<lambda>a.
                 bind_exc (getitem data t) (\<lambda>s.
                 bind_exc (artist lib (Boxplot (dropna s)) a)
                   (setter [SetTitle (t @ '' Returns''), SetYlabel ''Return'', SetXticks])))
          else on_cell axes i (setter [AxisOff]))
         = Inr (axes[i := axes ! i @ box_cell data t])"
proof (cases "t \<in> set (columns data)")
  case True
  then obtain s where s: "getitem data t = Inr s" using getitem_in by blast
  with assms(1)[OF s] assms(2) True show ?thesis
    by (simp add: on_cell_def bind_exc_def artist_def setter_def box_cell_def)
next
  case False
  then have "\<exists>e. getitem data t = Inl e"
    by (auto simp: getitem_def columns_def map_of_eq_None_iff split: option.splits)
  with assms(2) False show ?thesis
    by (auto simp: on_cell_def bind_exc_def setter_def box_cell_def)
qed

lemma grid_loops:
  assumes ne: "tickers \<noteq> []"
    and body: "\<And>i t axes. t \<in> set tickers \<Longrightarrow> i < length axes \<Longrightarrow>
                 body (i, t) axes = Inr (axes[i := axes ! i @ ops t])"
  shows "bind_exc (subplots ((length tickers + 2) div 3) 3) (\<lambda>axes.
         bind_exc (flatten axes) (\<lambda>axes.
         bind_exc (for_each body (enumerate 0 tickers) axes) (\<lambda>axes.
         bind_exc (for_each (\<lambda>j axes. on_cell axes j (setter [AxisOff]))
                     [length tickers ..< length axes] axes) (\<lambda>axes.
         Inr \<lparr>cells = Ax1D axes, suptitle = None\<rparr>))))
       = Inr \<lparr>cells = Ax1D (map ops tickers @
                  replicate (3 * ((length tickers + 2) div 3) - length tickers) [AxisOff]),
              suptitle = None\<rparr>"
proof -
  let ?n = "length tickers"
  let ?rows = "(?n + 2) div 3"
  let ?m = "3 * ?rows - ?n"
  from ne have pos: "0 < ?rows" by (cases tickers) simp_all
  have split: "replicate (?rows * 3) ([]::ax) = [] @ replicate ?n [] @ replicate ?m []"
    using grid_rows[of ?n] by (simp add: replicate_add[symmetric])
  have fl: "bind_exc (subplots ?rows 3) flatten = Inr ([] @ replicate ?n [] @ replicate ?m [])"
    using subplots_flatten[OF pos] split by simp
  have l1: "for_each body (enumerate (length ([]::ax list)) tickers)
              ([] @ replicate ?n [] @ replicate ?m [])
            = Inr ([] @ map ops tickers @ replicate ?m [])"
    by (rule for_each_enumerate_fill) (rule body)
  have l2: "for_each (\<lambda>j axes. on_cell axes j (setter [AxisOff]))
              [length (map ops tickers) ..< length (map ops tickers) + ?m]
              (map ops tickers @ replicate ?m [])
            = Inr (map ops tickers @ replicate ?m [AxisOff])"
    by (rule for_each_off_fill)
  have "bind_exc (subplots ?rows 3) (\<lambda>axes.
         bind_exc (flatten axes) (\<lambda>axes.
         bind_exc (for_each body (enumerate 0 tickers) axes) (\<lambda>axes.
         bind_exc (for_each (\<lambda>j axes. on_cell axes j (setter [AxisOff]))
                     [?n ..< length axes] axes) (\<lambda>axes.
         Inr \<lparr>cells = Ax1D axes, suptitle = None\<rparr>))))
      = bind_exc (bind_exc (subplots ?rows 3) flatten) (\<lambda>axes.
         bind_exc (for_each body (enumerate 0 tickers) axes) (\<lambda>axes.
         bind_exc (for_each (\<lambda>j axes. on_cell axes j (setter [AxisOff]))
                     [?n ..< length axes] axes) (\<lambda>axes.
         Inr \<lparr>cells = Ax1D axes, suptitle = None\<rparr>)))"
    by (simp add: bind_exc_assoc)
  also have "\<dots> = Inr \<lparr>cells = Ax1D (map ops tickers @ replicate ?m [AxisOff]), suptitle = None\<rparr>"
    using l1 l2 unfolding fl by (simp add: bind_exc_def)
  finally show ?thesis .
qed

lemma plot_histograms_cells:
  assumes "tickers \<noteq> []"
    and "\<And>t s. t \<in> set tickers \<Longrightarrow> getitem data t = Inr s \<Longrightarrow> draws lib (Hist s) = None"
  shows "plot_histograms lib data tickers =
         Inr \<lparr>cells = Ax1D (map (hist_cell data) tickers @
                  replicate (3 * ((length tickers + 2) div 3) - length tickers) [AxisOff]),
              suptitle = None\<rparr>"
  unfolding plot_histograms_def Let_def
  by (rule grid_loops[OF assms(1)]) (simp add: hist_body assms(2))

lemma plot_boxplots_cells:
  assumes "tickers \<noteq> []"
    and "\<And>t s. t \<in> set tickers \<Longrightarrow> getitem data t = Inr s \<Longrightarrow> draws lib (Boxplot (dropna s)) = None"
  shows "plot_boxplots lib data tickers =
         Inr \<lparr>cells = Ax1D (map (box_cell data) tickers @
                  replicate (3 * ((length tickers + 2) div 3) - length tickers) [AxisOff]),
              suptitle = None\<rparr>"
  unfolding plot_boxplots_def Let_def
  by (rule grid_loops[OF assms(1)]) (simp add: box_body assms(2))

lemma absent_cells:
  "t \<notin> set (columns data) \<Longrightarrow> hist_cell data t = [AxisOff] \<and> box_cell data t = [AxisOff]"
  by (auto simp: hist_cell_def box_cell_def getitem_def columns_def map_of_eq_None_iff
      split: option.splits)

text \<open>
  Claim C8. For every table and every non-empty ticker list, \<open>plot_histograms\<close> and
  \<open>plot_boxplots\<close> allocate 3 columns and \<open>ceil(|L|/3)\<close> rows of cells, at least as many cells
  as tickers, so that every index used is in range. The cell of a ticker that is not a
  column is switched off, the cell of a ticker that is a column holds its chart, the cells
  after the last ticker are switched off, and no exception is raised, provided the
  library's \<open>hist\<close> and \<open>boxplot\<close> accept the columns that are present.
\<close>

theorem grids_blank_absent_tickers:
  assumes "tickers \<noteq> []"
    and "\<forall>t \<in> set tickers. \<forall>s. getitem data t = Inr s \<longrightarrow>
            draws lib (Hist s) = None \<and> draws lib (Boxplot (dropna s)) = None"
  shows "\<exists>hs bs.
           plot_histograms lib data tickers = Inr \<lparr>cells = Ax1D hs, suptitle = None\<rparr>
         \<and> plot_boxplots lib data tickers = Inr \<lparr>cells = Ax1D bs, suptitle = None\<rparr>
         \<and> length hs = 3 * ((length tickers + 2) div 3)
         \<and> length bs = 3 * ((length tickers + 2) div 3)
         \<and> int ((length tickers + 2) div 3) = \<lceil>real (length tickers) / 3\<rceil>
         \<and> length tickers \<le> length hs
         \<and> (\<forall>i < length tickers.
               hs ! i = hist_cell data (tickers ! i) \<and> bs ! i = box_cell data (tickers ! i))
         \<and> (\<forall>i < length tickers. tickers ! i \<notin> set (columns data) \<longrightarrow>
               hs ! i = [AxisOff] \<and> bs ! i = [AxisOff])
         \<and> (\<forall>j. length tickers \<le> j \<and> j < length hs \<longrightarrow>
               hs ! j = [AxisOff] \<and> bs ! j = [AxisOff])"
proof -
  let ?n = "length tickers"
  let ?m = "3 * ((?n + 2) div 3) - ?n"
  let ?hs = "map (hist_cell data) tickers @ replicate ?m [AxisOff]"
  let ?bs = "map (box_cell data) tickers @ replicate ?m [AxisOff]"
  have h: "plot_histograms lib data tickers = Inr \<lparr>cells = Ax1D ?hs, suptitle = None\<rparr>"
    using assms by (intro plot_histograms_cells) auto
  have b: "plot_boxplots lib data tickers = Inr \<lparr>cells = Ax1D ?bs, suptitle = None\<rparr>"
    using assms by (intro plot_boxplots_cells) auto
  have len: "length ?hs = 3 * ((?n + 2) div 3)" "length ?bs = 3 * ((?n + 2) div 3)"
    using grid_rows[of ?n] by simp_all
  have le: "?n \<le> length ?hs" by simp
  have c1: "\<forall>i < ?n. ?hs ! i = hist_cell data (tickers ! i) \<and> ?bs ! i = box_cell data (tickers ! i)"
    by (simp add: nth_append)
  have c2: "\<forall>i < ?n. tickers ! i \<notin> set (columns data) \<longrightarrow>
               ?hs ! i = [AxisOff] \<and> ?bs ! i = [AxisOff]"
    using absent_cells[of _ data] by (simp add: nth_append)
  have c3: "\<forall>j. ?n \<le> j \<and> j < length ?hs \<longrightarrow> ?hs ! j = [AxisOff] \<and> ?bs ! j = [AxisOff]"
    by (auto simp: nth_append)
  show ?thesis
    using h b len rows_ceiling[of ?n] le c1 c2 c3
    by (intro exI[of _ ?hs] exI[of _ ?bs] conjI)
qed

theorem grids_blank_absent_tickers_witness:
  "[''A'', ''Z'', ''B'', ''A''] \<noteq> []
   \<and> columns ex_table = [''A'', ''B'']
   \<and> (\<exists>hs bs.
          plot_histograms ex_plotlib ex_table [''A'', ''Z'', ''B'', ''A'']
            = Inr \<lparr>cells = Ax1D hs, suptitle = None\<rparr>
        \<and> plot_boxplots ex_plotlib ex_table [''A'', ''Z'', ''B'', ''A'']
            = Inr \<lparr>cells = Ax1D bs, suptitle = None\<rparr>
        \<and> length hs = 6 \<and> length bs = 6
        \<and> hs ! 0 = [Hist [Some 1, Some 3, None], SetTitle ''A Returns'', SetXlabel ''Return'',
                     SetYlabel ''Frequency'']
        \<and> bs ! 2 = [Boxplot [2, 4], SetTitle ''B Returns'', SetYlabel ''Return'', SetXticks]
        \<and> hs ! 1 = [AxisOff] \<and> bs ! 1 = [AxisOff]
        \<and> hs ! 4 = [AxisOff] \<and> bs ! 4 = [AxisOff]
        \<and> hs ! 5 = [AxisOff] \<and> bs ! 5 = [AxisOff])"
proof -
  let ?L = "[''A'', ''Z'', ''B'', ''A'']"
  have ne: "?L \<noteq> []" by simp
  have ok: "\<forall>t \<in> set ?L. \<forall>s. getitem ex_table t = Inr s \<longrightarrow>
            draws ex_plotlib (Hist s) = None \<and> draws ex_plotlib (Boxplot (dropna s)) = None"
    by (simp add: ex_plotlib_draws)
  from grids_blank_absent_tickers[OF ne ok] obtain hs bs where r:
    "plot_histograms ex_plotlib ex_table ?L = Inr \<lparr>cells = Ax1D hs, suptitle = None\<rparr>"
    "plot_boxplots ex_plotlib ex_table ?L = Inr \<lparr>cells = Ax1D bs, suptitle = None\<rparr>"
    "length hs = 3 * ((length ?L + 2) div 3)"
    "length bs = 3 * ((length ?L + 2) div 3)"
    "\<forall>i < length ?L. hs ! i = hist_cell ex_table (?L ! i) \<and> bs ! i = box_cell ex_table (?L ! i)"
    "\<forall>i < length ?L. ?L ! i \<notin> set (columns ex_table) \<longrightarrow> hs ! i = [AxisOff] \<and> bs ! i = [AxisOff]"
    "\<forall>j. length ?L \<le> j \<and> j < length hs \<longrightarrow> hs ! j = [AxisOff] \<and> bs ! j = [AxisOff]"
    by blast
  have len: "length hs = 6" "length bs = 6" using r(3,4) by simp_all
  from r(5) have "hs ! 0 = hist_cell ex_table (?L ! 0)" by simp
  then have h0: "hs ! 0 = [Hist [Some 1, Some 3, None], SetTitle ''A Returns'',
                           SetXlabel ''Return'', SetYlabel ''Frequency'']"
    by (simp add: hist_cell_def ex_table_getitem)
  from r(5) have "bs ! 2 = box_cell ex_table (?L ! 2)" by simp
  then have b2: "bs ! 2 = [Boxplot [2, 4], SetTitle ''B Returns'', SetYlabel ''Return'', SetXticks]"
    by (simp add: box_cell_def ex_table_getitem)
  from r(6) have "?L ! 1 \<notin> set (columns ex_table) \<longrightarrow> hs ! 1 = [AxisOff] \<and> bs ! 1 = [AxisOff]"
    by simp
  then have c1: "hs ! 1 = [AxisOff]" "bs ! 1 = [AxisOff]" by (simp_all add: ex_table_columns)
  from r(7) len have c4: "hs ! 4 = [AxisOff]" "bs ! 4 = [AxisOff]" by simp_all
  from r(7) len have c5: "hs ! 5 = [AxisOff]" "bs ! 5 = [AxisOff]" by simp_all
  have "\<exists>hs bs.
          plot_histograms ex_plotlib ex_table ?L = Inr \<lparr>cells = Ax1D hs, suptitle = None\<rparr>
        \<and> plot_boxplots ex_plotlib ex_table ?L = Inr \<lparr>cells = Ax1D bs, suptitle = None\<rparr>
        \<and> length hs = 6 \<and> length bs = 6
        \<and> hs ! 0 = [Hist [Some 1, Some 3, None], SetTitle ''A Returns'', SetXlabel ''Return'',
                     SetYlabel ''Frequency'']
        \<and> bs ! 2 = [Boxplot [2, 4], SetTitle ''B Returns'', SetYlabel ''Return'', SetXticks]
        \<and> hs ! 1 = [AxisOff] \<and> bs ! 1 = [AxisOff]
        \<and> hs ! 4 = [AxisOff] \<and> bs ! 4 = [AxisOff]
        \<and> hs ! 5 = [AxisOff] \<and> bs ! 5 = [AxisOff]"
    using r(1,2) len h0 b2 c1 c4 c5 by (intro exI[of _ hs] exI[of _ bs] conjI)
  then show ?thesis using ne ex_table_columns by (intro conjI)
qed

lemma prices60_getitem:
  "getitem prices60 ''A'' = Inr (map (\<lambda>i. Some (real i)) [0..<60])"
  by (simp add: getitem_def prices60_def)

lemma prices60x3_getitem:
  "getitem prices60x3 ''A'' = Inr (map (\<lambda>i. Some (real i)) [0..<60])"
  "getitem prices60x3 ''B'' = Inr (map (\<lambda>i. Some (real i)) [0..<60])"
  "getitem prices60x3 ''C'' = Inr (map (\<lambda>i. Some (real i)) [0..<60])"
  by (simp_all add: getitem_def prices60x3_def)

lemma ex_decompose_60:
  "seasonal_decompose ex_plotlib (map real [0..<60]) model 30 =
     Inr \<lparr>trend = map Some (map real [0..<60]), seasonal = map (\<lambda>x. Some 0) (map real [0..<60]),
          resid = map (\<lambda>x. Some 0) (map real [0..<60])\<rparr>"
  by (simp add: ex_plotlib_def del: upt_Suc map_map)

lemma ex_acf_60:
  "draws ex_plotlib (PlotAcf (map real [0..<60]) 25) = None"
  "draws ex_plotlib (PlotPacf (map real [0..<60]) 25) = None"
  by (simp_all add: ex_plotlib_def del: upt_Suc)

lemma prices60_columns: "columns prices60 = [''A'']"
  by (simp add: columns_def prices60_def)

lemma prices60x3_columns: "columns prices60x3 = [''A'', ''B'', ''C'']"
  by (simp add: columns_def prices60x3_def)

lemma enumerate_three:
  "enumerate 0 [a] = [(0, a)]"
  "enumerate 0 [a, b, c] = [(0, a), (Suc 0, b), (2, c)]"
  by (simp_all add: numeral_2_eq_2)

lemma subplots_small:
  "subplots (Suc 0) 3 = Inr (Ax1D [[], [], []])"
  "subplots (Suc 0) 2 = Inr (Ax1D [[], []])"
  "subplots (Suc (Suc 0)) 3 = Inr (Ax2D [[[], [], []], [[], [], []]])"
  "subplots (Suc (Suc 0)) 2 = Inr (Ax2D [[[], []], [[], []]])"
  "subplots (Suc (Suc (Suc 0))) 3 = Inr (Ax2D [[[], [], []], [[], [], []], [[], [], []]])"
  by (simp_all add: subplots_def numeral_2_eq_2 numeral_3_eq_3)

text \<open>
  Claim C5 says that \<open>ts_decomposition\<close> and \<open>acf_pacf\<close> render one row of sub-charts per
  column of the table, whatever ticker list comes with it. The code sizes the grid by the
  length of the ticker list and indexes it by column. With one ticker for a table of one
  column, \<open>plt.subplots\<close> returns a one-dimensional array and \<open>axes[0, 0]\<close> raises
  \<open>IndexError\<close>; with two tickers for a table of three columns, the third column's row does
  not exist. With three tickers for the three columns the decomposition is drawn.
\<close>

theorem decomposition_grid_raises:
  "columns prices60 = [''A'']
   \<and> ts_decomposition ex_plotlib prices60 [''A''] =
       Inl (IndexError ''too many indices for array: array is 1-dimensional, but 2 were indexed'')
   \<and> acf_pacf ex_plotlib prices60 [''A''] =
       Inl (IndexError ''too many indices for array: array is 1-dimensional, but 2 were indexed'')
   \<and> columns prices60x3 = [''A'', ''B'', ''C'']
   \<and> ts_decomposition ex_plotlib prices60x3 [''A'', ''B''] =
       Inl (IndexError ''index is out of bounds for axis 0'')
   \<and> acf_pacf ex_plotlib prices60x3 [''A'', ''B''] =
       Inl (IndexError ''index is out of bounds for axis 0'')
   \<and> \<not> isl (ts_decomposition ex_plotlib prices60x3 [''A'', ''B'', ''C''])"
proof -
  have d1: "ts_decomposition ex_plotlib prices60 [''A''] =
       Inl (IndexError ''too many indices for array: array is 1-dimensional, but 2 were indexed'')"
    unfolding ts_decomposition_def Let_def prices60_columns enumerate_three
    by (simp add: subplots_small bind_exc_def prices60_getitem dropna_map_Some ex_decompose_60
        del: upt_Suc)
  have a1: "acf_pacf ex_plotlib prices60 [''A''] =
       Inl (IndexError ''too many indices for array: array is 1-dimensional, but 2 were indexed'')"
    unfolding acf_pacf_def Let_def prices60_columns enumerate_three
    by (simp add: subplots_small bind_exc_def prices60_getitem dropna_map_Some
        del: upt_Suc)
  have d2: "ts_decomposition ex_plotlib prices60x3 [''A'', ''B''] =
       Inl (IndexError ''index is out of bounds for axis 0'')"
    unfolding ts_decomposition_def Let_def prices60x3_columns enumerate_three
    by (simp add: subplots_small bind_exc_def prices60x3_getitem dropna_map_Some ex_decompose_60
        artist_def setter_def ex_plotlib_draws del: upt_Suc)
  have a2: "acf_pacf ex_plotlib prices60x3 [''A'', ''B''] =
       Inl (IndexError ''index is out of bounds for axis 0'')"
    unfolding acf_pacf_def Let_def prices60x3_columns enumerate_three
    by (simp add: subplots_small bind_exc_def prices60x3_getitem dropna_map_Some ex_acf_60
        artist_def setter_def del: upt_Suc)
  have d3: "\<not> isl (ts_decomposition ex_plotlib prices60x3 [''A'', ''B'', ''C''])"
    unfolding ts_decomposition_def Let_def prices60x3_columns enumerate_three
    by (simp add: subplots_small bind_exc_def prices60x3_getitem dropna_map_Some ex_decompose_60
        artist_def setter_def ex_plotlib_draws del: upt_Suc)
  show ?thesis using prices60_columns d1 a1 prices60x3_columns d2 a2 d3 by (intro conjI)
qed

text \<open>
  Claim C6 says that every charting function skips the tickers of the list that are not
  columns of the table, the line plot included. \<open>tracking_plot\<close> reads \<open>data[t]\<close> for every
  ticker of the list with no test, so a ticker that is not a column raises \<open>KeyError\<close>;
  \<open>plot_histograms\<close> on the same input switches the cell off.
\<close>

theorem tracking_plot_absent_ticker_raises:
  "columns ex_table = [''A'', ''B'']
   \<and> tracking_plot ex_plotlib ex_table [''A'', ''Z''] ''Prices'' ''Date'' ''Price''
       = Inl (KeyError ''Z'')
   \<and> plot_histograms ex_plotlib ex_table [''A'', ''Z''] =
       Inr \<lparr>cells = Ax1D [[Hist [Some 1, Some 3, None], SetTitle ''A Returns'',
                            SetXlabel ''Return'', SetYlabel ''Frequency''],
                           [AxisOff], [AxisOff]],
            suptitle = None\<rparr>"
proof -
  have z: "getitem ex_table ''Z'' = Inl (KeyError ''Z'')"
    by (simp add: getitem_def ex_table_def)
  have t: "tracking_plot ex_plotlib ex_table [''A'', ''Z''] ''Prices'' ''Date'' ''Price''
       = Inl (KeyError ''Z'')"
    by (simp add: tracking_plot_def bind_exc_def ex_table_getitem z artist_def ex_plotlib_draws)
  have "plot_histograms ex_plotlib ex_table [''A'', ''Z''] =
         Inr \<lparr>cells = Ax1D (map (hist_cell ex_table) [''A'', ''Z''] @
                  replicate (3 * ((length [''A'', ''Z''] + 2) div 3) - length [''A'', ''Z'']) [AxisOff]),
              suptitle = None\<rparr>"
    by (rule plot_histograms_cells) (simp_all add: ex_plotlib_draws)
  then have h: "plot_histograms ex_plotlib ex_table [''A'', ''Z''] =
       Inr \<lparr>cells = Ax1D [[Hist [Some 1, Some 3, None], SetTitle ''A Returns'',
                            SetXlabel ''Return'', SetYlabel ''Frequency''],
                           [AxisOff], [AxisOff]],
            suptitle = None\<rparr>"
    by (simp add: hist_cell_def ex_table_getitem z)
  show ?thesis using ex_table_columns t h by (intro conjI)
qed

end
